theory Spec2Isabelle
  imports Main "HOL-Library.Sublist"
begin

section \<open>Python values\<close>

text \<open>
  A Python \<open>bytes\<close> value is a list of 8-bit characters. A Python \<open>str\<close> that only
  travels through the program (keys, identifiers, shell lines) is a \<open>string\<close>; a
  \<open>str\<close> obtained by decoding bytes is the list of its Unicode code points.
  A leading underscore of a source name is dropped (\<open>_run_command\<close> is
  \<open>run_command\<close>).
\<close>

type_synonym bytes = "char list"
type_synonym unicode = "nat list"

definition unicode :: "string \<Rightarrow> unicode" where
  "unicode s = map of_char s"

datatype exn =
    Exception string
  | ValueError string
  | ValidationError
  | KeyError string
  | ClientError "string option"
  | NoSuchKey
  | UnicodeDecodeError
  | TimeoutError string
  | PermissionError unicode
  | OutputLimitExceededError string "unicode option"
  | IsADirectoryError string
  | FileNotFoundError unicode
  | RetryError

text \<open>\<open>needle in haystack\<close> on sequences.\<close>

fun contains :: "'a list \<Rightarrow> 'a list \<Rightarrow> bool" where
  "contains needle [] = (needle = [])"
| "contains needle (h # hay) = (prefix needle (h # hay) \<or> contains needle hay)"

text \<open>\<open>s.split(sep)\<close> for a one-character separator.\<close>

fun split_on :: "char \<Rightarrow> string \<Rightarrow> string list" where
  "split_on sep [] = [[]]"
| "split_on sep (c # cs) =
     (if c = sep then [] # split_on sep cs
      else (case split_on sep cs of
              w # ws \<Rightarrow> (c # w) # ws
            | [] \<Rightarrow> [[c]]))"

text \<open>\<open>sep.join(parts)\<close>.\<close>

fun join :: "string \<Rightarrow> string list \<Rightarrow> string" where
  "join sep [] = []"
| "join sep [p] = p"
| "join sep (p # q # ps) = p @ sep @ join sep (q # ps)"

text \<open>\<open>str(n)\<close> for an integer.\<close>

fun str_nat :: "nat \<Rightarrow> string" where
  "str_nat n =
     (if n < 10 then [''0123456789'' ! n]
      else str_nat (n div 10) @ [''0123456789'' ! (n mod 10)])"

declare str_nat.simps [simp del]

definition str_int :: "int \<Rightarrow> string" where
  "str_int i = (if i < 0 then CHR ''-'' # str_nat (nat (- i)) else str_nat (nat i))"

text \<open>
  \<open>bytes.decode("utf-8")\<close>, strict: \<open>None\<close> is UnicodeDecodeError. A sequence is
  accepted when it is well-formed UTF-8 (no overlong form, no surrogate, nothing above
  U+10FFFF).
\<close>

definition byte_in :: "nat \<Rightarrow> nat \<Rightarrow> char \<Rightarrow> bool" where
  "byte_in lo hi b = (lo \<le> (of_char b :: nat) \<and> (of_char b :: nat) \<le> hi)"

definition second_lo :: "nat \<Rightarrow> nat" where
  "second_lo lead = (if lead = 0xE0 then 0xA0 else if lead = 0xF0 then 0x90 else 0x80)"

definition second_hi :: "nat \<Rightarrow> nat" where
  "second_hi lead = (if lead = 0xED then 0x9F else if lead = 0xF4 then 0x8F else 0xBF)"

definition low6 :: "char \<Rightarrow> nat" where
  "low6 b = of_char b - 0x80"

fun utf8_decode :: "bytes \<Rightarrow> unicode option" where
  "utf8_decode [] = Some []"
| "utf8_decode (b0 # bs) =
     (let n = (of_char b0 :: nat) in
      if n < 0x80 then map_option ((#) n) (utf8_decode bs)
      else if 0xC2 \<le> n \<and> n \<le> 0xDF then
        (case bs of
           b1 # r \<Rightarrow>
             if byte_in 0x80 0xBF b1
             then map_option ((#) ((n - 0xC0) * 64 + low6 b1)) (utf8_decode r)
             else None
         | _ \<Rightarrow> None)
      else if 0xE0 \<le> n \<and> n \<le> 0xEF then
        (case bs of
           b1 # b2 # r \<Rightarrow>
             if byte_in (second_lo n) (second_hi n) b1 \<and> byte_in 0x80 0xBF b2
             then map_option ((#) ((n - 0xE0) * 4096 + low6 b1 * 64 + low6 b2))
                    (utf8_decode r)
             else None
         | _ \<Rightarrow> None)
      else if 0xF0 \<le> n \<and> n \<le> 0xF4 then
        (case bs of
           b1 # b2 # b3 # r \<Rightarrow>
             if byte_in (second_lo n) (second_hi n) b1 \<and> byte_in 0x80 0xBF b2
                \<and> byte_in 0x80 0xBF b3
             then map_option
                    ((#) ((n - 0xF0) * 262144 + low6 b1 * 4096 + low6 b2 * 64 + low6 b3))
                    (utf8_decode r)
             else None
         | _ \<Rightarrow> None)
      else None)"

section \<open>shlex\<close>

text \<open>
  \<open>shlex.quote\<close>: the empty string becomes two quotes, a string of safe characters
  (\<open>[A-Za-z0-9_@%+=:,./-]\<close>) is left as it is, anything else is wrapped in single
  quotes with every single quote written \<open>'"'"'\<close>.
\<close>

definition is_safe_char :: "char \<Rightarrow> bool" where
  "is_safe_char c =
     (byte_in 97 122 c \<or> byte_in 65 90 c \<or> byte_in 48 57 c \<or> c \<in> set ''_@%+=:,./-'')"

definition shlex_quote :: "string \<Rightarrow> string" where
  "shlex_quote s =
     (if s = [] then [CHR 0x27, CHR 0x27]
      else if list_all is_safe_char s then s
      else [CHR 0x27]
           @ concat (map (\<lambda>c. if c = CHR 0x27
                                then [CHR 0x27, CHR 0x22, CHR 0x27, CHR 0x22, CHR 0x27]
                                else [c]) s)
           @ [CHR 0x27])"

definition shlex_join :: "string list \<Rightarrow> string" where
  "shlex_join cmd = join '' '' (map shlex_quote cmd)"

section \<open>Tag codec (\<open>_unpack_tags.py\<close>)\<close>

text \<open>
  The loop of \<open>unpack_tags\<close>: \<open>key, value = tag.split("=")\<close> raises ValueError
  (here \<open>None\<close>) unless the split has exactly two parts.
\<close>

fun unpack_pairs :: "string list \<Rightarrow> (string \<times> string) list option" where
  "unpack_pairs [] = Some []"
| "unpack_pairs (tag # tags_list) =
     (case split_on CHR ''='' tag of
        [key, value] \<Rightarrow> map_option ((#) (key, value)) (unpack_pairs tags_list)
      | _ \<Rightarrow> None)"

text \<open>
  The message of the ValueError is an ordinary string literal in the source, not an
  f-string: the braces and the word \<open>tags\<close> are part of the text.
\<close>

definition tags_format_message :: string where
  "tags_format_message =
     ''Tags must be in the format '' @ [CHR 0x27] @ ''key1=value1;key2=value2''
     @ [CHR 0x27] @ '', '' @ ''but instead got {tags}''"

definition unpack_tags :: "string option \<Rightarrow> exn + (string \<times> string) list" where
  "unpack_tags tags =
     (case tags of
        None \<Rightarrow> Inr []
      | Some t \<Rightarrow>
          if t = [] then Inr []
          else (case unpack_pairs (split_on CHR '';'' t) of
                  Some tags_unpacked \<Rightarrow> Inr tags_unpacked
                | None \<Rightarrow> Inl (ValueError tags_format_message)))"

record tag_specification =
  ResourceType :: string
  Tags :: "(string \<times> string) list"

definition convert_tags_for_aws_interface ::
  "string \<Rightarrow> (string \<times> string) list \<Rightarrow> tag_specification list" where
  "convert_tags_for_aws_interface resource_type tags_unpacked =
     [\<lparr>ResourceType = resource_type, Tags = tags_unpacked\<rparr>]"

text \<open>The textual form \<open>k1=v1;k2=v2\<close> of a pair sequence.\<close>

definition pack_tags :: "(string \<times> string) list \<Rightarrow> string" where
  "pack_tags ps = join '';'' (map (\<lambda>(k, v). k @ ''='' @ v) ps)"

section \<open>Configuration (\<open>schema.py\<close>)\<close>

text \<open>
  The settings object, the \<open>params\<close> dictionary of \<open>from_settings\<close> and the
  configuration model have the same fields; they differ in what a field holds. In the
  settings the last field is \<open>extra_tags_str\<close>.
\<close>

record ('s, 't) ec2_fields =
  region :: 's
  vpc_id :: 's
  security_group_id :: 's
  subnet_id :: 's
  ami_id :: 's
  instance_type :: 's
  instance_profile :: 's
  s3_bucket :: 's
  s3_key_prefix :: 's
  extra_tags :: 't

type_synonym Ec2ExistingInfraSettings = "(string option, string option) ec2_fields"
type_synonym params = "(string option, (string \<times> string) list) ec2_fields"
type_synonym kwargs = "(string option option, (string \<times> string) list option) ec2_fields"
type_synonym Ec2SandboxEnvironmentConfig = "(string, (string \<times> string) list) ec2_fields"

text \<open>
  The model class declares ten required fields and no validator: its constructor
  checks that every field is given (pydantic raises ValidationError for a missing or
  null string) and nothing else.
\<close>

definition Ec2SandboxEnvironmentConfig_init :: "params \<Rightarrow> exn + Ec2SandboxEnvironmentConfig" where
  "Ec2SandboxEnvironmentConfig_init p =
     (case (region p, vpc_id p, security_group_id p, subnet_id p, ami_id p) of
        (Some r, Some v, Some sg, Some sn, Some ami) \<Rightarrow>
          (case (instance_type p, instance_profile p, s3_bucket p, s3_key_prefix p) of
             (Some ty, Some prof, Some b, Some pre) \<Rightarrow>
               Inr \<lparr>region = r, vpc_id = v, security_group_id = sg, subnet_id = sn,
                    ami_id = ami, instance_type = ty, instance_profile = prof,
                    s3_bucket = b, s3_key_prefix = pre, extra_tags = extra_tags p\<rparr>
           | _ \<Rightarrow> Inl ValidationError)
      | _ \<Rightarrow> Inl ValidationError)"

text \<open>\<open>config_deserialize\<close> passes the dictionary straight to the constructor.\<close>

definition config_deserialize :: "params \<Rightarrow> exn + Ec2SandboxEnvironmentConfig" where
  "config_deserialize config = Ec2SandboxEnvironmentConfig_init config"

text \<open>
  \<open>_find_ami_ubu24\<close>: the argument is the \<open>Parameters\<close> list (the values) that the
  parameter store answers with.
\<close>

definition find_ami_ubu24 :: "string list \<Rightarrow> exn + string" where
  "find_ami_ubu24 parameters =
     (case parameters of
        [] \<Rightarrow> Inl (ValueError ''Could not find Ubuntu 24.04 AMI ID in SSM Parameter Store'')
      | v # _ \<Rightarrow> Inr v)"

definition override :: "'a \<Rightarrow> 'a option \<Rightarrow> 'a" where
  "override v kw = (case kw of None \<Rightarrow> v | Some v' \<Rightarrow> v')"

text \<open>\<open>params.update(kwargs)\<close>: a key given in \<open>kwargs\<close> replaces the setting.\<close>

definition update_params :: "params \<Rightarrow> kwargs \<Rightarrow> params" where
  "update_params p kw =
     \<lparr>region = override (region p) (region kw),
      vpc_id = override (vpc_id p) (vpc_id kw),
      security_group_id = override (security_group_id p) (security_group_id kw),
      subnet_id = override (subnet_id p) (subnet_id kw),
      ami_id = override (ami_id p) (ami_id kw),
      instance_type = override (instance_type p) (instance_type kw),
      instance_profile = override (instance_profile p) (instance_profile kw),
      s3_bucket = override (s3_bucket p) (s3_bucket kw),
      s3_key_prefix = override (s3_key_prefix p) (s3_key_prefix kw),
      extra_tags = override (extra_tags p) (extra_tags kw)\<rparr>"

text \<open>
  \<open>from_settings\<close>. \<open>settings\<close> is what the environment and the \<open>.env\<close> file give,
  \<open>aws_region\<close> is \<open>os.getenv("AWS_REGION")\<close>, \<open>ami_parameters\<close> answers the
  parameter-store lookup of a region.
\<close>

definition from_settings ::
  "Ec2ExistingInfraSettings \<Rightarrow> string option \<Rightarrow> (string \<Rightarrow> string list) \<Rightarrow> kwargs
   \<Rightarrow> exn + Ec2SandboxEnvironmentConfig" where
  "from_settings settings aws_region ami_parameters kw =
     (case unpack_tags (extra_tags settings) of
        Inl e \<Rightarrow> Inl e
      | Inr tags \<Rightarrow>
          (let p0 = update_params
                      \<lparr>region = region settings, vpc_id = vpc_id settings,
                       security_group_id = security_group_id settings,
                       subnet_id = subnet_id settings, ami_id = ami_id settings,
                       instance_type = instance_type settings,
                       instance_profile = instance_profile settings,
                       s3_bucket = s3_bucket settings,
                       s3_key_prefix = s3_key_prefix settings, extra_tags = tags\<rparr> kw
           in case (case region p0 of Some r \<Rightarrow> Some r | None \<Rightarrow> aws_region) of
                None \<Rightarrow>
                  Inl (ValueError (''Region must be specified either in settings,''
                         @ '' or as an environment variable INSPECT_EC2_SANDBOX_REGION''
                         @ '' or AWS_REGION.''))
              | Some r \<Rightarrow>
                  (case (case ami_id p0 of
                           Some a \<Rightarrow> Inr a
                         | None \<Rightarrow> find_ami_ubu24 (ami_parameters r)) of
                     Inl e \<Rightarrow> Inl e
                   | Inr ami \<Rightarrow>
                       (let ty = (case instance_type p0 of None \<Rightarrow> ''t3a.large'' | Some t \<Rightarrow> t);
                            pre = (case s3_key_prefix p0 of None \<Rightarrow> [] | Some x \<Rightarrow> x)
                        in if prefix ''/'' pre
                           then Inl (ValueError (''S3 key prefix '' @ [CHR 0x27] @ pre
                                       @ [CHR 0x27] @ '' must not start with a ''
                                       @ [CHR 0x27] @ ''/'' @ [CHR 0x27]))
                           else Ec2SandboxEnvironmentConfig_init
                                  (p0\<lparr>region := Some r, ami_id := Some ami,
                                      instance_type := Some ty,
                                      s3_key_prefix := Some pre\<rparr>)))))"

section \<open>Agent readiness (\<open>_wait_for_ssm\<close>)\<close>

record instance_information =
  InstanceId :: string
  PingStatus :: string

text \<open>
  One call of the decorated function: the argument is the outcome of
  \<open>describe_instance_information\<close> (an exception, or the
  \<open>InstanceInformationList\<close> of the response).
\<close>

definition wait_for_ssm_attempt :: "exn + instance_information list \<Rightarrow> exn + bool" where
  "wait_for_ssm_attempt resp =
     (case resp of
        Inl e \<Rightarrow> Inl e
      | Inr InstanceInformationList \<Rightarrow>
          (case InstanceInformationList of
             [] \<Rightarrow> Inl (Exception ''Not ready'')
           | first # _ \<Rightarrow>
               if PingStatus first \<noteq> ''Online'' then Inl (Exception ''Not ready'')
               else Inr True))"

text \<open>
  The decorator \<open>retry(stop=stop_after_attempt(n), wait=wait_fixed(d))\<close>: attempts are
  numbered from 1; an attempt that raises is followed by a sleep of \<open>d\<close> and another
  attempt, unless its number has reached \<open>n\<close>, in which case RetryError is raised.
  The second component lists the sleeps made.
\<close>

function retry_call ::
  "nat \<Rightarrow> nat \<Rightarrow> (nat \<Rightarrow> exn + 'a) \<Rightarrow> nat \<Rightarrow> nat list \<Rightarrow> (exn + 'a) \<times> nat list" where
  "retry_call stop_after wait f attempt_number slept =
     (case f attempt_number of
        Inr result \<Rightarrow> (Inr result, slept)
      | Inl e \<Rightarrow>
          if attempt_number \<ge> stop_after then (Inl RetryError, slept)
          else retry_call stop_after wait f (attempt_number + 1) (slept @ [wait]))"
  by pat_completeness auto
termination
  by (relation "measure (\<lambda>(stop_after, wait, f, attempt_number, slept). stop_after - attempt_number)")
     auto

declare retry_call.simps [simp del]

text \<open>
  \<open>describe n\<close> is what the inventory answers to the \<open>n\<close>-th poll.
\<close>

definition wait_for_ssm :: "(nat \<Rightarrow> exn + instance_information list) \<Rightarrow> (exn + bool) \<times> nat list" where
  "wait_for_ssm describe = retry_call 20 30 (\<lambda>n. wait_for_ssm_attempt (describe n)) 1 []"

text \<open>
  The relay's side of a poll. \<open>describe_instance_information\<close> with the filter
  \<open>InstanceIds\<close> answers with the records of the inventory whose instance id is in
  the filter's value set; \<open>poll inventory instance n\<close> is the outcome of the \<open>n\<close>-th
  call of \<open>_wait_for_ssm\<close>'s query for one instance, \<open>inventory n\<close> being the inventory
  at that time (or the exception the call raises).
\<close>

definition describe_instance_information ::
  "instance_information list \<Rightarrow> string list \<Rightarrow> instance_information list" where
  "describe_instance_information inventory valueSet =
     filter (\<lambda>r. InstanceId r \<in> set valueSet) inventory"

definition poll ::
  "(nat \<Rightarrow> exn + instance_information list) \<Rightarrow> string \<Rightarrow> nat
   \<Rightarrow> exn + instance_information list" where
  "poll inventory instance n =
     (case inventory n of
        Inl e \<Rightarrow> Inl e
      | Inr records \<Rightarrow> Inr (describe_instance_information records [instance]))"

text \<open>
  The condition of readiness in the words of the specification: at the \<open>n\<close>-th poll
  exactly one record of the inventory matches the instance id, and its status is
  Online.
\<close>

definition exactly_one_record_online ::
  "(nat \<Rightarrow> exn + instance_information list) \<Rightarrow> string \<Rightarrow> nat \<Rightarrow> bool" where
  "exactly_one_record_online inventory instance n =
     (case inventory n of
        Inl e \<Rightarrow> False
      | Inr records \<Rightarrow>
          (case filter (\<lambda>r. InstanceId r = instance) records of
             [r] \<Rightarrow> PingStatus r = ''Online''
           | _ \<Rightarrow> False))"

section \<open>The object store\<close>

text \<open>
  What the S3 client answers, as far as the program looks at it. \<open>ClientError c\<close>
  carries the error code of the response (\<open>None\<close> when the response has none);
  a byte range \<open>Bytes lo hi\<close> is the header \<open>bytes=lo-hi\<close>.
\<close>

record head_object_response =
  ContentLength :: "int option"

datatype byte_range = Bytes int int

record s3_client =
  head_object :: "string \<Rightarrow> exn + head_object_response"
  get_object :: "string \<Rightarrow> byte_range option \<Rightarrow> exn + bytes"

text \<open>
  The bucket is a list of (key, content) pairs, in listing order. A probe or a fetch of
  an absent key answers not-found (404 for the probe, NoSuchKey for the fetch). A
  well-formed range is served with the bytes \<open>lo\<close> to \<open>hi\<close> of the object, as far
  as there are any, and refused when it starts past the end; a malformed range header
  is ignored and the whole object is served.
\<close>

definition serve_range :: "bytes \<Rightarrow> byte_range option \<Rightarrow> exn + bytes" where
  "serve_range body rng =
     (case rng of
        None \<Rightarrow> Inr body
      | Some (Bytes lo hi) \<Rightarrow>
          if 0 \<le> lo \<and> lo \<le> hi then
            (if lo < int (length body)
             then Inr (take (nat (hi + 1 - lo)) (drop (nat lo) body))
             else Inl (ClientError (Some ''InvalidRange'')))
          else Inr body)"

definition s3_of :: "(string \<times> bytes) list \<Rightarrow> s3_client" where
  "s3_of objects =
     \<lparr>head_object = (\<lambda>key. case map_of objects key of
                               None \<Rightarrow> Inl (ClientError (Some ''404''))
                             | Some body \<Rightarrow> Inr \<lparr>ContentLength = Some (int (length body))\<rparr>),
      get_object = (\<lambda>key rng. case map_of objects key of
                                    None \<Rightarrow> Inl NoSuchKey
                                  | Some body \<Rightarrow> serve_range body rng)\<rparr>"

definition get_s3_file_size :: "s3_client \<Rightarrow> string \<Rightarrow> exn + int" where
  "get_s3_file_size s3 key =
     (case head_object s3 key of
        Inr response \<Rightarrow> Inr (case ContentLength response of Some n \<Rightarrow> n | None \<Rightarrow> 0)
      | Inl (ClientError code) \<Rightarrow>
          if code = Some ''404'' then Inl (KeyError key) else Inl (ClientError code)
      | Inl e \<Rightarrow> Inl e)"

text \<open>The handler \<open>except (NoSuchKey, KeyError)\<close>.\<close>

fun not_found :: "exn \<Rightarrow> bool" where
  "not_found NoSuchKey = True"
| "not_found (KeyError k) = True"
| "not_found e = False"

definition read_s3_file_or_blank :: "s3_client \<Rightarrow> string \<Rightarrow> int \<Rightarrow> exn + unicode" where
  "read_s3_file_or_blank s3 key limit_bytes =
     (case get_s3_file_size s3 key of
        Inl e \<Rightarrow> if not_found e then Inr [] else Inl e
      | Inr file_size \<Rightarrow>
          if file_size \<ge> limit_bytes then
            (case get_object s3 key (Some (Bytes 0 (limit_bytes - 1))) of
               Inl e \<Rightarrow> if not_found e then Inr [] else Inl e
             | Inr response_body \<Rightarrow>
                 (case utf8_decode response_body of
                    None \<Rightarrow> Inl UnicodeDecodeError
                  | Some truncated_output \<Rightarrow>
                      Inl (OutputLimitExceededError ''10 MiB'' (Some truncated_output))))
          else
            (case get_object s3 key None of
               Inl e \<Rightarrow> if not_found e then Inr [] else Inl e
             | Inr response_body \<Rightarrow>
                 (case utf8_decode response_body of
                    None \<Rightarrow> Inl UnicodeDecodeError
                  | Some decoded \<Rightarrow> Inr decoded)))"

section \<open>The command relay and the sandbox environment\<close>

record send_command_request =
  InstanceIds :: "string list"
  DocumentName :: string
  Parameters :: "(string \<times> string list) list"
  OutputS3BucketName :: string
  OutputS3KeyPrefix :: string

text \<open>
  The response dictionary of an invocation status: the two keys the program reads, and
  the names of the other keys (a dictionary with no key at all is falsy).
\<close>

record invocation =
  Status :: "string option"
  ResponseCode :: "int option"
  other_keys :: "string list"

definition truthy :: "invocation \<Rightarrow> bool" where
  "truthy r = (\<not> (Status r = None \<and> ResponseCode r = None \<and> other_keys r = []))"

datatype waiter_result = CommandExecuted | WaiterError invocation

datatype ssm_call =
    SendCommand send_command_request
  | WaitCommandExecuted string string int int
  | GetCommandInvocation string string
  | CancelCommand string "string list"

text \<open>
  The relay, as the program sees it: the command id it assigns to a request, how the
  \<open>command_executed\<close> waiter ends for (CommandId, InstanceId, Delay, MaxAttempts),
  the invocation status it reports, and how \<open>cancel_command\<close> ends for (CommandId,
  InstanceIds): \<open>None\<close> when the call returns, the exception when it raises.
  \<open>remote_effect\<close> is what the run of the request has done to the bucket by the time
  the waiter ends (the relay stores the output streams there; the script may upload
  through a presigned URL).
\<close>

record ssm_client =
  send_command :: "send_command_request \<Rightarrow> string"
  wait_command_executed :: "string \<Rightarrow> string \<Rightarrow> int \<Rightarrow> int \<Rightarrow> waiter_result"
  get_command_invocation :: "string \<Rightarrow> string \<Rightarrow> invocation"
  cancel_command :: "string \<Rightarrow> string list \<Rightarrow> exn option"
  remote_effect :: "send_command_request \<Rightarrow> (string \<times> bytes) list \<Rightarrow> (string \<times> bytes) list"

text \<open>
  The size ceilings are constants of the harness library (\<open>inspect_ai\<close>), not of this
  program; they are parameters here.
\<close>

record SandboxEnvironmentLimits =
  MAX_EXEC_OUTPUT_SIZE :: int
  MAX_READ_FILE_SIZE :: int
  MAX_READ_FILE_SIZE_STR :: string

record Ec2SandboxEnvironment =
  config :: Ec2SandboxEnvironmentConfig
  instance_id :: string
  ssm :: ssm_client
  generate_presigned_url :: "string \<Rightarrow> string \<Rightarrow> nat \<Rightarrow> string"

text \<open>
  The state the calls act on: the bucket, the calls made to the relay (oldest first),
  the warnings logged (debug and info lines are not kept), and the number of key
  prefixes drawn so far. \<open>now_and_random n\<close> is the timestamp and the eight random
  characters of the \<open>n\<close>-th draw. The three \<open>raises\<close> fields say for which arguments a
  deleting or listing call of the S3 client fails; the text of that failure is left
  out of the warning.
\<close>

record world =
  bucket :: "(string \<times> bytes) list"
  ssm_calls :: "ssm_call list"
  warnings :: "string list"
  draws :: nat
  now_and_random :: "nat \<Rightarrow> string \<times> string"
  delete_object_raises :: "string \<Rightarrow> bool"
  list_objects_raises :: "string \<Rightarrow> bool"
  delete_objects_raises :: "string list \<Rightarrow> bool"

definition warning :: "string \<Rightarrow> world \<Rightarrow> world" where
  "warning msg w = w\<lparr>warnings := warnings w @ [msg]\<rparr>"

definition call :: "ssm_call \<Rightarrow> world \<Rightarrow> world" where
  "call c w = w\<lparr>ssm_calls := ssm_calls w @ [c]\<rparr>"

definition s3_key_prefix_for :: "Ec2SandboxEnvironment \<Rightarrow> string \<Rightarrow> world \<Rightarrow> string \<times> world" where
  "s3_key_prefix_for self operation w =
     (let (timestamp, rand) = now_and_random w (draws w)
      in (s3_key_prefix (config self) @ operation @ ''/'' @ timestamp @ ''-'' @ rand @ ''/'',
          w\<lparr>draws := Suc (draws w)\<rparr>))"

definition delete_s3_object :: "string \<Rightarrow> world \<Rightarrow> world" where
  "delete_s3_object key w =
     (if delete_object_raises w key
      then warning (''Failed to delete S3 object '' @ key) w
      else w\<lparr>bucket := filter (\<lambda>(k, body). k \<noteq> key) (bucket w)\<rparr>)"

text \<open>
  \<open>list_objects_v2\<close> answers with one page, at most 1000 keys; the response has no
  \<open>Contents\<close> when no key has the prefix.
\<close>

definition delete_s3_prefix :: "string \<Rightarrow> world \<Rightarrow> world" where
  "delete_s3_prefix pre w =
     (if list_objects_raises w pre
      then warning (''Failed to delete S3 objects with prefix '' @ pre) w
      else (let objects = take 1000 (filter (prefix pre) (map fst (bucket w)))
            in if objects = [] then w
               else if delete_objects_raises w objects
               then warning (''Failed to delete S3 objects with prefix '' @ pre) w
               else w\<lparr>bucket := filter (\<lambda>(k, body). k \<notin> set objects) (bucket w)\<rparr>))"

record ExecResult =
  success :: bool
  returncode :: int
  stdout :: unicode
  stderr :: unicode

definition or_3600 :: "int option \<Rightarrow> int" where
  "or_3600 timeout = (case timeout of None \<Rightarrow> 3600 | Some t \<Rightarrow> if t = 0 then 3600 else t)"

definition output_key :: "Ec2SandboxEnvironment \<Rightarrow> string \<Rightarrow> string \<Rightarrow> string \<Rightarrow> string" where
  "output_key self key_prefix command_id stream =
     key_prefix @ command_id @ ''/'' @ instance_id self
     @ ''/awsrunShellScript/0.awsrunShellScript/'' @ stream"

text \<open>
  The statements of \<open>_run_command\<close> after its \<open>try\<close> statement, and the arguments
  of its \<open>send_command\<close> call.
\<close>

definition delete_and_return ::
  "string \<Rightarrow> string \<Rightarrow> string \<Rightarrow> int \<Rightarrow> unicode \<Rightarrow> unicode \<Rightarrow> world \<Rightarrow> (exn + ExecResult) \<times> world" where
  "delete_and_return stdout_key stderr_key invocation_prefix return_code out err w =
     (Inr \<lparr>success = (return_code = 0), returncode = return_code, stdout = out, stderr = err\<rparr>,
      delete_s3_prefix invocation_prefix (delete_s3_object stderr_key (delete_s3_object stdout_key w)))"

definition request_for ::
  "Ec2SandboxEnvironment \<Rightarrow> string \<Rightarrow> (string \<times> string list) list \<Rightarrow> send_command_request" where
  "request_for self key_prefix params =
     \<lparr>InstanceIds = [instance_id self], DocumentName = ''AWS-RunShellScript'',
      Parameters = params, OutputS3BucketName = s3_bucket (config self),
      OutputS3KeyPrefix = key_prefix\<rparr>"

text \<open>
  \<open>_run_command\<close>. The handler of the \<open>try\<close> statement catches WaiterError only: an
  exception of a read on the normal path leaves the function at once, and so does one
  raised inside the handler, that of the \<open>cancel_command\<close> call included (the call
  stands there with no handler of its own, before the \<open>raise TimeoutError\<close>). The calls
  to the relay are recorded in order; the bucket that the reads see is the one the
  remote run has left.
\<close>

definition run_command ::
  "SandboxEnvironmentLimits \<Rightarrow> Ec2SandboxEnvironment \<Rightarrow> string \<Rightarrow> (string \<times> string list) list
   \<Rightarrow> int option \<Rightarrow> world \<Rightarrow> (exn + ExecResult) \<times> world" where
  "run_command limits self key_prefix params timeout w0 =
     (let request = request_for self key_prefix params;
          command_id = send_command (ssm self) request;
          w1 = call (SendCommand request) w0;
          stdout_key = output_key self key_prefix command_id ''stdout'';
          stderr_key = output_key self key_prefix command_id ''stderr'';
          invocation_prefix = key_prefix @ command_id @ ''/'';
          w2 = (call (WaitCommandExecuted command_id (instance_id self) 1 (or_3600 timeout)) w1)
                 \<lparr>bucket := remote_effect (ssm self) request (bucket w1)\<rparr>;
          limit = MAX_EXEC_OUTPUT_SIZE limits
      in case wait_command_executed (ssm self) command_id (instance_id self) 1 (or_3600 timeout) of
           CommandExecuted \<Rightarrow>
             (case read_s3_file_or_blank (s3_of (bucket w2)) stdout_key limit of
                Inl e \<Rightarrow> (Inl e, w2)
              | Inr out \<Rightarrow>
                  (case read_s3_file_or_blank (s3_of (bucket w2)) stderr_key limit of
                     Inl e \<Rightarrow> (Inl e, w2)
                   | Inr err \<Rightarrow>
                       (let output_response =
                              get_command_invocation (ssm self) command_id (instance_id self);
                            w3 = call (GetCommandInvocation command_id (instance_id self)) w2;
                            return_code = (case ResponseCode output_response of
                                             Some c \<Rightarrow> c | None \<Rightarrow> 0)
                        in delete_and_return stdout_key stderr_key invocation_prefix
                             return_code out err w3)))
         | WaiterError last_response \<Rightarrow>
             if Status last_response = Some ''InProgress'' then
               (let w3 = call (CancelCommand command_id [instance_id self])
                           (warning ''Command is still running, killing it.'' w2)
                in case cancel_command (ssm self) command_id [instance_id self] of
                     Some e \<Rightarrow> (Inl e, w3)
                   | None \<Rightarrow> (Inl (TimeoutError ''Command execution timed out.''), w3))
             else
               (case read_s3_file_or_blank (s3_of (bucket w2)) stdout_key limit of
                  Inl e \<Rightarrow> (Inl e, w2)
                | Inr out \<Rightarrow>
                    (case read_s3_file_or_blank (s3_of (bucket w2)) stderr_key limit of
                       Inl e \<Rightarrow> (Inl e, w2)
                     | Inr err \<Rightarrow>
                         (let return_code =
                                (if truthy last_response
                                 then (case ResponseCode last_response of
                                         Some c \<Rightarrow> c | None \<Rightarrow> 1)
                                 else 1)
                          in if contains (unicode ''failed to run commands: exit status 126'') err
                             then (Inl (PermissionError
                                          (unicode ''Permission denied executing command: '' @ err)),
                                   w2)
                             else delete_and_return stdout_key stderr_key invocation_prefix
                                    return_code out err w2))))"

text \<open>
  \<open>exec\<close>. \<open>input\<close> is a \<open>str\<close> (left) or \<open>bytes\<close> (right) when given; \<open>env\<close> is the
  dictionary in insertion order.
\<close>

definition exec ::
  "SandboxEnvironmentLimits \<Rightarrow> Ec2SandboxEnvironment \<Rightarrow> string list \<Rightarrow> (string + bytes) option
   \<Rightarrow> string option \<Rightarrow> (string \<times> string) list \<Rightarrow> string option \<Rightarrow> int option \<Rightarrow> bool
   \<Rightarrow> world \<Rightarrow> (exn + ExecResult) \<times> world" where
  "exec limits self cmd input cwd env user timeout timeout_retry w0 =
     (let w1 = (if input \<noteq> None
                then warning ''Input parameter not supported by EC2 sandbox'' w0 else w0);
          w2 = (if user \<noteq> None
                then warning ''User parameter not supported by EC2 sandbox'' w1 else w1);
          commands = map (\<lambda>(k, v). ''export '' @ shlex_quote k @ ''='' @ shlex_quote v) env
                     @ (case cwd of None \<Rightarrow> [] | Some d \<Rightarrow> [''cd '' @ shlex_quote d])
                     @ [shlex_join cmd];
          params = [(''commands'', commands),
                    (''executionTimeout'', [str_int (or_3600 timeout)])];
          (exec_prefix, w3) = s3_key_prefix_for self ''exec'' w2
      in run_command limits self exec_prefix params timeout w3)"

datatype file_contents = Text unicode | Binary bytes

text \<open>
  \<open>read_file\<close>, in three definitions: the dispatch of the upload script (the file key
  and the outcome of \<open>_run_command\<close>), the download of the uploaded object (the
  statements after the check of the result), and the method itself.
\<close>

definition read_file_dispatch ::
  "SandboxEnvironmentLimits \<Rightarrow> Ec2SandboxEnvironment \<Rightarrow> string \<Rightarrow> world
   \<Rightarrow> string \<times> (exn + ExecResult) \<times> world" where
  "read_file_dispatch limits self file w0 =
     (let (read_prefix, w1) = s3_key_prefix_for self ''read_file'' w0;
          file_key = read_prefix @ file;
          url = generate_presigned_url self ''put_object'' file_key 60;
          commands = [''#!/bin/sh'', ''set -e'',
                      shlex_join [''test'', ''-d'', file] @ ''&& echo '' @ [CHR 0x27]
                        @ ''Is a directory'' @ [CHR 0x27] @ '' 1>&2 && exit 1'',
                      shlex_join [''curl'', ''--fail-with-body'', ''--verbose'',
                                  ''--upload-file'', file, url]];
          params = [(''commands'', commands), (''executionTimeout'', [''3600''])];
          (exec_prefix, w2) = s3_key_prefix_for self ''exec'' w1
      in (file_key, run_command limits self exec_prefix params (Some 3600) w2))"

definition read_file_download ::
  "SandboxEnvironmentLimits \<Rightarrow> string \<Rightarrow> string \<Rightarrow> bool \<Rightarrow> world
   \<Rightarrow> (exn + file_contents) \<times> world" where
  "read_file_download limits file file_key as_text w3 =
     (let missing = Inl (FileNotFoundError
                           (unicode (''File '' @ file @ '' does not exist in S3 bucket.'')))
      in case get_s3_file_size (s3_of (bucket w3)) file_key of
           Inl e \<Rightarrow> (if not_found e then missing else Inl e, w3)
         | Inr file_size \<Rightarrow>
             if file_size \<ge> MAX_READ_FILE_SIZE limits then
               (case get_object (s3_of (bucket w3)) file_key
                       (Some (Bytes 0 (MAX_READ_FILE_SIZE limits - 1))) of
                  Inl e \<Rightarrow> (if not_found e then missing else Inl e, w3)
                | Inr response_body \<Rightarrow>
                    (Inl (OutputLimitExceededError (MAX_READ_FILE_SIZE_STR limits) None), w3))
             else
               (case get_object (s3_of (bucket w3)) file_key None of
                  Inl e \<Rightarrow> (if not_found e then missing else Inl e, w3)
                | Inr response_body \<Rightarrow>
                    (let w4 = delete_s3_object file_key w3
                     in if as_text then
                          (case utf8_decode response_body of
                             None \<Rightarrow> (Inl UnicodeDecodeError, w4)
                           | Some decoded \<Rightarrow> (Inr (Text decoded), w4))
                        else (Inr (Binary response_body), w4))))"

definition read_file ::
  "SandboxEnvironmentLimits \<Rightarrow> Ec2SandboxEnvironment \<Rightarrow> string \<Rightarrow> bool \<Rightarrow> world
   \<Rightarrow> (exn + file_contents) \<times> world" where
  "read_file limits self file as_text w0 =
     (case read_file_dispatch limits self file w0 of
        (file_key, Inl e, w3) \<Rightarrow> (Inl e, w3)
      | (file_key, Inr result, w3) \<Rightarrow>
          if \<not> success result then
            (if contains (unicode ''Is a directory'') (stderr result)
             then (Inl (IsADirectoryError file), w3)
             else (Inl (FileNotFoundError
                          (unicode (''Failed to read file '' @ file @ '': '')
                           @ stderr result)), w3))
          else read_file_download limits file file_key as_text w3)"

section \<open>Bulk clean-up (\<open>cli_cleanup\<close>)\<close>

record ec2_instance =
  ec2_InstanceId :: string
  ec2_Tags :: "(string \<times> string) list option"

datatype printed = Line string | Table "(string \<times> string) list"

text \<open>
  What \<open>cli_cleanup\<close> reads and changes: the reservations that \<open>describe_instances\<close>
  answers with, whether standard input is a terminal, the names set in the process
  environment, the answer to the confirmation prompt; the renderables printed and the
  batches passed to \<open>terminate_instances\<close>.
\<close>

record cli_world =
  reservations :: "ec2_instance list list"
  stdin_isatty :: bool
  environ :: "string list"
  confirm_answer :: bool
  console :: "printed list"
  terminated :: "string list list"

fun name_tag_of :: "(string \<times> string) list \<Rightarrow> string" where
  "name_tag_of [] = []"
| "name_tag_of ((k, v) # tags) = (if k = ''Name'' then v else name_tag_of tags)"

definition table_row :: "ec2_instance \<Rightarrow> string \<times> string" where
  "table_row inst =
     (ec2_InstanceId inst, (case ec2_Tags inst of None \<Rightarrow> [] | Some tags \<Rightarrow> name_tag_of tags))"

definition cli_cleanup :: "string option \<Rightarrow> cli_world \<Rightarrow> (exn + unit) \<times> cli_world" where
  "cli_cleanup target_id w =
     (case target_id of
        None \<Rightarrow>
          (let instances = concat (reservations w)
           in if instances \<noteq> [] then
                (let w1 = w\<lparr>console := console w @ [Table (map table_row instances)]\<rparr>;
                     is_interactive_shell = stdin_isatty w;
                     is_ci = (''CI'' \<in> set (environ w));
                     is_pytest = (''PYTEST_CURRENT_TEST'' \<in> set (environ w))
                 in if is_interactive_shell \<and> \<not> is_ci \<and> \<not> is_pytest \<and> \<not> confirm_answer w
                    then (Inr (), w1\<lparr>console := console w1 @ [Line ''Cancelled.'']\<rparr>)
                    else (Inr (), w1\<lparr>terminated := terminated w1
                                         @ [map ec2_InstanceId instances]\<rparr>))
              else (Inr (), w\<lparr>console := console w
                      @ [Line ([CHR 0x0A] @ ''No EC2 sandbox instances found to clean up.''
                               @ [CHR 0x0A])]\<rparr>))
      | Some target \<Rightarrow>
          (Inr (), w\<lparr>console := console w
             @ [Line ([CHR 0x0A] @ ''[red]Cleanup by ID not implemented[/red]''
                      @ [CHR 0x0A])]\<rparr>))"

section \<open>Concrete inputs\<close>

text \<open>A configuration dictionary whose key prefix starts with the path separator.\<close>

definition leading_slash_config :: params where
  "leading_slash_config =
     \<lparr>region = Some ''eu-west-2'', vpc_id = Some ''vpc-123'',
      security_group_id = Some ''sg-456'', subnet_id = Some ''subnet-654321'',
      ami_id = Some ''ami-789'', instance_type = Some ''t3a.large'',
      instance_profile = Some ''profile-1'', s3_bucket = Some ''fake-bucket'',
      s3_key_prefix = Some ''/sandbox/'', extra_tags = []\<rparr>"

text \<open>One tagged instance running, a non-interactive shell.\<close>

definition one_instance_cli :: cli_world where
  "one_instance_cli =
     \<lparr>reservations = [[\<lparr>ec2_InstanceId = ''i-0abc'', ec2_Tags = Some [(''Name'', ''box'')]\<rparr>]],
      stdin_isatty = False, environ = [], confirm_answer = False,
      console = [], terminated = []\<rparr>"

text \<open>
  A sandbox wired to a relay that gives every request the command id \<open>c1\<close>, ends the
  wait with \<open>outcome\<close>, reports \<open>status\<close>, has stored \<open>uploads\<close> in the bucket and
  accepts every cancellation;
  small limits; a world with an empty bucket in which no S3 call fails.
\<close>

definition small_limits :: SandboxEnvironmentLimits where
  "small_limits =
     \<lparr>MAX_EXEC_OUTPUT_SIZE = 64, MAX_READ_FILE_SIZE = 4, MAX_READ_FILE_SIZE_STR = ''4 B''\<rparr>"

definition demo_config :: Ec2SandboxEnvironmentConfig where
  "demo_config =
     \<lparr>region = ''eu-west-2'', vpc_id = ''vpc-123'', security_group_id = ''sg-456'',
      subnet_id = ''subnet-654321'', ami_id = ''ami-789'', instance_type = ''t3a.large'',
      instance_profile = ''profile-1'', s3_bucket = ''fake-bucket'',
      s3_key_prefix = ''sandbox/'', extra_tags = []\<rparr>"

definition relay_with :: "waiter_result \<Rightarrow> invocation \<Rightarrow> (string \<times> bytes) list \<Rightarrow> ssm_client" where
  "relay_with outcome status uploads =
     \<lparr>send_command = (\<lambda>request. ''c1''),
      wait_command_executed = (\<lambda>command_id instance delay max_attempts. outcome),
      get_command_invocation = (\<lambda>command_id instance. status),
      cancel_command = (\<lambda>command_id instances. None),
      remote_effect = (\<lambda>request objects. uploads @ objects)\<rparr>"

text \<open>The same relay, but its \<open>cancel_command\<close> call is throttled and raises.\<close>

definition throttled :: "ssm_client \<Rightarrow> ssm_client" where
  "throttled relay =
     relay\<lparr>cancel_command :=
             (\<lambda>command_id instances. Some (ClientError (Some ''ThrottlingException'')))\<rparr>"

definition sandbox_with :: "ssm_client \<Rightarrow> Ec2SandboxEnvironment" where
  "sandbox_with relay =
     \<lparr>config = demo_config, instance_id = ''i-0abc'', ssm = relay,
      generate_presigned_url = (\<lambda>method key ttl. ''https://s3/'' @ key)\<rparr>"

definition quiet_world :: world where
  "quiet_world =
     \<lparr>bucket = [], ssm_calls = [], warnings = [], draws = 0,
      now_and_random = (\<lambda>n. (''T'', ''abcdefgh'')),
      delete_object_raises = (\<lambda>key. False), list_objects_raises = (\<lambda>pre. False),
      delete_objects_raises = (\<lambda>keys. False)\<rparr>"

definition in_progress_status :: invocation where
  "in_progress_status = \<lparr>Status = Some ''InProgress'', ResponseCode = Some (- 1), other_keys = []\<rparr>"

definition failed_status :: invocation where
  "failed_status = \<lparr>Status = Some ''Failed'', ResponseCode = Some 126, other_keys = []\<rparr>"

definition no_code_status :: "string \<Rightarrow> invocation" where
  "no_code_status state = \<lparr>Status = Some state, ResponseCode = None, other_keys = []\<rparr>"

definition ok_status :: invocation where
  "ok_status = \<lparr>Status = Some ''Success'', ResponseCode = Some 0, other_keys = []\<rparr>"

text \<open>
  The output objects of the invocation \<open>c1\<close> under the key prefix \<open>exec/T-r/\<close>: with
  the permission marker of the relay in the error stream, and with another error text.
\<close>

definition denied_uploads :: "(string \<times> bytes) list" where
  "denied_uploads =
     [(''exec/T-r/c1/i-0abc/awsrunShellScript/0.awsrunShellScript/stdout'', ''partial''),
      (''exec/T-r/c1/i-0abc/awsrunShellScript/0.awsrunShellScript/stderr'',
       ''failed to run commands: exit status 126'')]"

definition crashed_uploads :: "(string \<times> bytes) list" where
  "crashed_uploads =
     [(''exec/T-r/c1/i-0abc/awsrunShellScript/0.awsrunShellScript/stdout'', ''partial''),
      (''exec/T-r/c1/i-0abc/awsrunShellScript/0.awsrunShellScript/stderr'', ''boom'')]"

text \<open>The object that the upload script of \<open>read_file\<close> leaves for the file \<open>notes.txt\<close>.\<close>

definition uploaded_file :: "(string \<times> bytes) list" where
  "uploaded_file = [(''sandbox/read_file/T-abcdefgh/notes.txt'', ''hello'')]"

text \<open>
  A client whose size probe finds an object of five bytes and whose content fetch
  finds none (the object went away in between).
\<close>

definition vanishing_client :: s3_client where
  "vanishing_client =
     \<lparr>head_object = (\<lambda>key. Inr \<lparr>ContentLength = Some 5\<rparr>),
      get_object = (\<lambda>key rng. Inl NoSuchKey)\<rparr>"

text \<open>
  An inventory of two instances: \<open>i-0abc\<close> registers at the third poll, \<open>i-0def\<close> is
  there from the start and never online.
\<close>

definition booting_inventory :: "nat \<Rightarrow> exn + instance_information list" where
  "booting_inventory n =
     (if n < 3 then Inr [\<lparr>InstanceId = ''i-0def'', PingStatus = ''Inactive''\<rparr>]
      else Inr [\<lparr>InstanceId = ''i-0def'', PingStatus = ''Inactive''\<rparr>,
                \<lparr>InstanceId = ''i-0abc'', PingStatus = ''Online''\<rparr>])"

text \<open>Three bytes of valid UTF-8: the two-byte character U+00E9, then the letter A.\<close>

definition e_acute_A :: bytes where
  "e_acute_A = [CHR 0xC3, CHR 0xA9, CHR 0x41]"

text \<open>The three bytes of the euro sign, U+20AC.\<close>

definition euro :: bytes where
  "euro = [CHR 0xE2, CHR 0x82, CHR 0xAC]"

lemmas demo_defs =
  small_limits_def demo_config_def relay_with_def throttled_def sandbox_with_def quiet_world_def
  in_progress_status_def failed_status_def no_code_status_def ok_status_def
  denied_uploads_def crashed_uploads_def uploaded_file_def

lemmas run_defs =
  run_command_def request_for_def output_key_def or_3600_def call_def warning_def
  read_s3_file_or_blank_def get_s3_file_size_def s3_of_def serve_range_def
  delete_and_return_def delete_s3_object_def delete_s3_prefix_def truthy_def unicode_def
  byte_in_def Let_def

section \<open>Configuration: the key prefix\<close>

text \<open>
  C7. The claim: a configuration whose key prefix starts with \<open>/\<close> is rejected at
  construction, so that no such configuration value exists. The constructor has no
  such check (only \<open>from_settings\<close> has one): \<open>config_deserialize\<close>, which calls the
  constructor directly, returns a configuration whose key prefix is \<open>/sandbox/\<close>.
\<close>

theorem config_deserialize_keeps_leading_slash:
  "config_deserialize leading_slash_config =
     Inr \<lparr>region = ''eu-west-2'', vpc_id = ''vpc-123'', security_group_id = ''sg-456'',
          subnet_id = ''subnet-654321'', ami_id = ''ami-789'', instance_type = ''t3a.large'',
          instance_profile = ''profile-1'', s3_bucket = ''fake-bucket'',
          s3_key_prefix = ''/sandbox/'', extra_tags = []\<rparr>
   \<and> prefix ''/'' ''/sandbox/''"
  by (simp add: config_deserialize_def Ec2SandboxEnvironmentConfig_init_def
      leading_slash_config_def)

text \<open>
  The factory does make the check, after the overrides are applied: whatever the
  settings and the overrides, a configuration that \<open>from_settings\<close> returns has a key
  prefix that does not start with the separator.
\<close>

lemma from_settings_no_leading_slash:
  "from_settings settings aws_region ami_parameters kw = Inr c \<Longrightarrow> \<not> prefix ''/'' (s3_key_prefix c)"
  by (auto simp: from_settings_def Let_def Ec2SandboxEnvironmentConfig_init_def
      split: sum.splits option.splits if_splits)

section \<open>Tag codec: the format error\<close>

text \<open>
  C8. The claim: a malformed tag string raises a format error whose message names the
  offending input. On the input \<open>owner\<close> (a pair with no \<open>=\<close>) the error is raised,
  but its message is the fixed text ending in the literal \<open>{tags}\<close>; the input does
  not occur in it.
\<close>

theorem unpack_tags_message_omits_input:
  "unpack_tags (Some ''owner'') = Inl (ValueError tags_format_message)
   \<and> \<not> contains ''owner'' tags_format_message
   \<and> contains ''{tags}'' tags_format_message"
  by (simp add: unpack_tags_def tags_format_message_def)

text \<open>
  The rest of the codec is as described. A sequence of pairs whose keys and values
  contain neither \<open>=\<close> nor \<open>;\<close>, written as \<open>k1=v1;k2=v2\<close>, is unpacked to the same
  sequence in the same order; and a non-empty tag string one of whose pieces has no
  \<open>=\<close> raises the format error.
\<close>

lemma split_on_none: "sep \<notin> set s \<Longrightarrow> split_on sep s = [s]"
  by (induction s) auto

lemma split_on_append: "sep \<notin> set a \<Longrightarrow> split_on sep (a @ sep # b) = a # split_on sep b"
  by (induction a) auto

lemma split_on_join:
  "parts \<noteq> [] \<Longrightarrow> \<forall>p \<in> set parts. sep \<notin> set p \<Longrightarrow> split_on sep (join [sep] parts) = parts"
proof (induction parts)
  case Nil
  then show ?case by simp
next
  case (Cons p ps)
  then show ?case
    by (cases ps) (simp_all add: split_on_none split_on_append)
qed

lemma unpack_pairs_packed:
  "\<forall>(k, v) \<in> set ps. CHR ''='' \<notin> set k \<and> CHR ''='' \<notin> set v
   \<Longrightarrow> unpack_pairs (map (\<lambda>(k, v). k @ ''='' @ v) ps) = Some ps"
proof (induction ps)
  case Nil then show ?case by simp
next
  case (Cons p ps)
  obtain k v where p: "p = (k, v)" by (cases p)
  with Cons.prems have "split_on CHR ''='' (k @ ''='' @ v) = [k, v]"
    by (simp add: split_on_append split_on_none)
  with Cons p show ?case by simp
qed

lemma unpack_tags_pack_tags:
  assumes "\<forall>(k, v) \<in> set ps. CHR ''='' \<notin> set k \<and> CHR ''='' \<notin> set v
             \<and> CHR '';'' \<notin> set k \<and> CHR '';'' \<notin> set v"
  shows "unpack_tags (Some (pack_tags ps)) = Inr ps"
proof (cases ps)
  case Nil
  then show ?thesis by (simp add: unpack_tags_def pack_tags_def)
next
  case (Cons p rest)
  let ?parts = "map (\<lambda>(k, v). k @ ''='' @ v) ps"
  have ne: "?parts \<noteq> []" using Cons by simp
  have clean: "\<forall>q \<in> set ?parts. CHR '';'' \<notin> set q" using assms by auto
  have sp: "split_on CHR '';'' (pack_tags ps) = ?parts"
    unfolding pack_tags_def using split_on_join [OF ne clean] by simp
  have "pack_tags ps \<noteq> []"
  proof
    assume "pack_tags ps = []"
    with sp have "?parts = [[]]" by simp
    with Cons show False by (cases p) auto
  qed
  moreover have "unpack_pairs ?parts = Some ps"
    using assms by (intro unpack_pairs_packed) auto
  ultimately show ?thesis by (simp add: unpack_tags_def sp)
qed

lemma unpack_pairs_malformed:
  "tag \<in> set tags_list \<Longrightarrow> CHR ''='' \<notin> set tag \<Longrightarrow> unpack_pairs tags_list = None"
proof (induction tags_list)
  case Nil then show ?case by simp
next
  case (Cons t ts)
  show ?case
  proof (cases "t = tag")
    case True
    with Cons.prems show ?thesis by (simp add: split_on_none)
  next
    case False
    with Cons have "unpack_pairs ts = None" by simp
    then show ?thesis by (simp split: list.splits)
  qed
qed

lemma unpack_tags_malformed:
  "t \<noteq> [] \<Longrightarrow> tag \<in> set (split_on CHR '';'' t) \<Longrightarrow> CHR ''='' \<notin> set tag
   \<Longrightarrow> unpack_tags (Some t) = Inl (ValueError tags_format_message)"
  by (simp add: unpack_tags_def unpack_pairs_malformed)

section \<open>Clean-up by id\<close>

text \<open>
  C9, as stated: \<open>cli_cleanup\<close> with a target id fails with an error the caller can
  observe. It does not: with the id \<open>i-0abc\<close> the call returns normally (and
  terminates nothing).
\<close>

theorem cli_cleanup_by_id_returns_normally:
  "fst (cli_cleanup (Some ''i-0abc'') one_instance_cli) = Inr ()
   \<and> terminated (snd (cli_cleanup (Some ''i-0abc'') one_instance_cli)) = []"
  by (simp add: cli_cleanup_def one_instance_cli_def)

text \<open>
  C9, amended: with a target id, \<open>cli_cleanup\<close> prints the line
  \<open>[red]Cleanup by ID not implemented[/red]\<close> to the console, changes nothing else
  (no instance is listed or terminated) and returns normally; no exception is raised.
\<close>

theorem cli_cleanup_by_id_prints_not_implemented:
  "cli_cleanup (Some target) w =
     (Inr (), w\<lparr>console := console w
                @ [Line ([CHR 0x0A] @ ''[red]Cleanup by ID not implemented[/red]''
                         @ [CHR 0x0A])]\<rparr>)"
  by (simp add: cli_cleanup_def)

section \<open>Reading an object with a size ceiling\<close>

text \<open>
  C4. For a key that is not in the object store, and any limit,
  \<open>_read_s3_file_or_blank\<close> returns the empty string and raises nothing: whether the
  not-found answer comes from the size probe (code 404) or from the content fetch
  (NoSuchKey), for any client; and in particular for a bucket that lacks the key.
\<close>

theorem read_s3_file_or_blank_missing_key:
  "(head_object s3 key = Inl (ClientError (Some ''404'')) \<or> head_object s3 key = Inl NoSuchKey
      \<longrightarrow> read_s3_file_or_blank s3 key limit_bytes = Inr [])
   \<and> ((\<exists>response. head_object s3 key = Inr response)
        \<and> (\<forall>r. get_object s3 key r = Inl NoSuchKey)
      \<longrightarrow> read_s3_file_or_blank s3 key limit_bytes = Inr [])
   \<and> (map_of objects key = None
      \<longrightarrow> read_s3_file_or_blank (s3_of objects) key limit_bytes = Inr [])"
  by (auto simp: read_s3_file_or_blank_def get_s3_file_size_def s3_of_def)

theorem read_s3_file_or_blank_missing_key_witness:
  "map_of [(''other'', ''x'')] ''missing'' = None
   \<and> read_s3_file_or_blank (s3_of [(''other'', ''x'')]) ''missing'' 10 = Inr []
   \<and> head_object (s3_of []) ''gone'' = Inl (ClientError (Some ''404''))
   \<and> read_s3_file_or_blank (s3_of []) ''gone'' (- 3) = Inr []
   \<and> head_object vanishing_client ''late'' = Inr \<lparr>ContentLength = Some 5\<rparr>
   \<and> get_object vanishing_client ''late'' None = Inl NoSuchKey
   \<and> read_s3_file_or_blank vanishing_client ''late'' 3 = Inr []
   \<and> read_s3_file_or_blank vanishing_client ''late'' 8 = Inr []"
  using read_s3_file_or_blank_missing_key
          [of "s3_of [(''other'', ''x'')]" "''missing''" 10 "[(''other'', ''x'')]"]
        read_s3_file_or_blank_missing_key [of "s3_of []" "''gone''" "- 3" "[]"]
        read_s3_file_or_blank_missing_key [of vanishing_client "''late''" 3]
        read_s3_file_or_blank_missing_key [of vanishing_client "''late''" 8]
  by (simp add: s3_of_def vanishing_client_def)

text \<open>
  C3. The claim: content of exactly \<open>limit - 1\<close> bytes is returned in full, and
  content of \<open>limit\<close> bytes or more raises the truncation signal, carrying the first
  \<open>limit\<close> bytes on the exec-output path. The boundary is where the claim puts it, but
  the signal is not always raised: the fetched bytes are decoded strictly before the
  \<open>raise\<close>, and a cut inside a multi-byte character does not decode. The three bytes
  C3 A9 41 are valid UTF-8 (two characters). With limit 4 they are returned in full;
  with limit 2 the signal carries the first character; with limit 1 the first byte
  alone is fetched and UnicodeDecodeError is raised in place of the signal.
\<close>

theorem read_s3_file_or_blank_cut_inside_character:
  "utf8_decode e_acute_A = Some [233, 65]
   \<and> read_s3_file_or_blank (s3_of [(''out'', e_acute_A)]) ''out'' 4 = Inr [233, 65]
   \<and> read_s3_file_or_blank (s3_of [(''out'', e_acute_A)]) ''out'' 2
       = Inl (OutputLimitExceededError ''10 MiB'' (Some [233]))
   \<and> read_s3_file_or_blank (s3_of [(''out'', e_acute_A)]) ''out'' 1
       = Inl UnicodeDecodeError"
  by (simp add: read_s3_file_or_blank_def get_s3_file_size_def s3_of_def serve_range_def
      byte_in_def low6_def e_acute_A_def)

text \<open>
  What the code computes on either side of the boundary, for any stored object: below
  the limit the whole content is fetched and decoded; from the limit on (a positive
  one) exactly the first \<open>limit\<close> bytes are fetched and decoded, and nothing is
  returned.
\<close>

lemma read_below_the_limit:
  assumes "map_of objects key = Some content" and "int (length content) < limit"
  shows "read_s3_file_or_blank (s3_of objects) key limit
           = (case utf8_decode content of
                None \<Rightarrow> Inl UnicodeDecodeError
              | Some decoded \<Rightarrow> Inr decoded)"
  using assms
  by (simp add: read_s3_file_or_blank_def get_s3_file_size_def s3_of_def serve_range_def)

lemma read_from_the_limit_on:
  assumes "map_of objects key = Some content" and "0 < limit"
    and "limit \<le> int (length content)"
  shows "read_s3_file_or_blank (s3_of objects) key limit
           = (case utf8_decode (take (nat limit) content) of
                None \<Rightarrow> Inl UnicodeDecodeError
              | Some decoded \<Rightarrow> Inl (OutputLimitExceededError ''10 MiB'' (Some decoded)))"
    and "int (length (take (nat limit) content)) = limit"
  using assms
  by (auto simp: read_s3_file_or_blank_def get_s3_file_size_def s3_of_def serve_range_def
      min_def)

text \<open>
  The same cut at the ceiling of the harness, 10 MiB = 3 * 3495253 + 1 bytes: an output
  of 3495254 euro signs (three bytes each, valid UTF-8) is cut after the first byte of
  a character.
\<close>

lemma utf8_decode_euro:
  "utf8_decode (euro @ bs) = map_option ((#) 8364) (utf8_decode bs)"
  by (simp add: euro_def byte_in_def second_lo_def second_hi_def low6_def)

lemma utf8_decode_euros: "utf8_decode (concat (replicate n euro)) = Some (replicate n 8364)"
proof (induction n)
  case 0
  show ?case by simp
next
  case (Suc n)
  have "utf8_decode (concat (replicate (Suc n) euro))
          = utf8_decode (euro @ concat (replicate n euro))"
    by simp
  also have "\<dots> = Some (replicate (Suc n) 8364)"
    unfolding utf8_decode_euro Suc.IH by simp
  finally show ?case .
qed

lemma utf8_decode_euros_cut: "utf8_decode (concat (replicate k euro) @ [CHR 0xE2]) = None"
proof (induction k)
  case 0
  show ?case by simp
next
  case (Suc k)
  have "utf8_decode (concat (replicate (Suc k) euro) @ [CHR 0xE2])
          = utf8_decode (euro @ (concat (replicate k euro) @ [CHR 0xE2]))"
    by simp
  also have "\<dots> = None"
    unfolding utf8_decode_euro Suc.IH by simp
  finally show ?case .
qed

lemma length_euros: "length (concat (replicate n euro)) = 3 * n"
  by (induction n) (simp_all add: euro_def)

lemma euros_split:
  "concat (replicate (k + Suc m) euro)
     = concat (replicate k euro) @ (euro @ concat (replicate m euro))"
  by (simp only: replicate_add concat_append replicate_Suc concat.simps)

lemma take_one_more: "take (length xs + 1) (xs @ y # ys) = xs @ [y]"
  by simp

lemma take_euros:
  assumes "k < n"
  shows "take (3 * k + 1) (concat (replicate n euro)) = concat (replicate k euro) @ [CHR 0xE2]"
proof -
  obtain m where "n = Suc (k + m)"
    using less_imp_Suc_add [OF assms] by blast
  then have n: "n = k + Suc m" by simp
  have e: "euro @ concat (replicate m euro)
             = CHR 0xE2 # ([CHR 0x82, CHR 0xAC] @ concat (replicate m euro))"
    by (simp add: euro_def)
  have "take (length (concat (replicate k euro)) + 1)
          (concat (replicate k euro)
           @ CHR 0xE2 # ([CHR 0x82, CHR 0xAC] @ concat (replicate m euro)))
        = concat (replicate k euro) @ [CHR 0xE2]"
    by (rule take_one_more)
  then have "take (3 * k + 1) (concat (replicate (k + Suc m) euro))
        = concat (replicate k euro) @ [CHR 0xE2]"
    unfolding euros_split e length_euros .
  then show ?thesis
    by (simp only: n)
qed

lemma read_euros_cut:
  assumes "k < n"
  shows "read_s3_file_or_blank (s3_of [(key, concat (replicate n euro))]) key (int (3 * k + 1))
           = Inl UnicodeDecodeError"
proof -
  let ?content = "concat (replicate n euro)"
  have m: "map_of [(key, ?content)] key = Some ?content" by simp
  have p: "0 < int (3 * k + 1)" by simp
  have l: "int (3 * k + 1) \<le> int (length ?content)"
    using assms by (simp add: length_euros)
  have "take (nat (int (3 * k + 1))) ?content = concat (replicate k euro) @ [CHR 0xE2]"
    unfolding nat_int by (rule take_euros [OF assms])
  then have "utf8_decode (take (nat (int (3 * k + 1))) ?content) = None"
    by (simp only: utf8_decode_euros_cut)
  then show ?thesis
    using read_from_the_limit_on(1) [OF m p l] by simp
qed

lemma read_euros_at_10_MiB:
  "read_s3_file_or_blank (s3_of [(''stdout'', concat (replicate 3495254 euro))]) ''stdout''
     (10 * 1024 * 1024) = Inl UnicodeDecodeError"
proof -
  have k: "(3495253 :: nat) < 3495254" by simp
  have e: "(10 * 1024 * 1024 :: int) = int (3 * 3495253 + 1)" by simp
  show ?thesis
    unfolding e by (rule read_euros_cut [OF k])
qed

text \<open>
  The file-read path: once the upload script of \<open>read_file\<close> has succeeded and the
  uploaded object has \<open>MAX_READ_FILE_SIZE\<close> bytes or more, the truncation signal is
  raised with no content at all (nothing is decoded on this path).
\<close>

lemma read_file_from_the_limit_on:
  assumes "fst (snd (read_file_dispatch limits self path w0)) = Inr result"
    and "success result"
    and "map_of (bucket (snd (snd (read_file_dispatch limits self path w0))))
           (fst (read_file_dispatch limits self path w0)) = Some uploaded"
    and "MAX_READ_FILE_SIZE limits \<le> int (length uploaded)"
  shows "fst (read_file limits self path as_text w0)
           = Inl (OutputLimitExceededError (MAX_READ_FILE_SIZE_STR limits) None)"
proof -
  obtain file_key outcome w3
    where d: "read_file_dispatch limits self path w0 = (file_key, outcome, w3)"
    by (cases "read_file_dispatch limits self path w0") auto
  with assms have o: "outcome = Inr result"
    and u: "map_of (bucket w3) file_key = Some uploaded"
    by simp_all
  have "read_file_download limits path file_key as_text w3
          = (Inl (OutputLimitExceededError (MAX_READ_FILE_SIZE_STR limits) None), w3)"
    using u assms(4)
    by (auto simp: read_file_download_def get_s3_file_size_def s3_of_def serve_range_def)
  then show ?thesis
    using d o assms(2) by (simp add: read_file_def)
qed

lemma read_file_dispatch_demo:
  "read_file_dispatch small_limits (sandbox_with (relay_with CommandExecuted ok_status uploaded_file))
     ''notes.txt'' quiet_world
   = (''sandbox/read_file/T-abcdefgh/notes.txt'',
      Inr \<lparr>success = True, returncode = 0, stdout = [], stderr = []\<rparr>,
      quiet_world\<lparr>bucket := uploaded_file, draws := 2,
        ssm_calls := [SendCommand
                        (request_for (sandbox_with (relay_with CommandExecuted ok_status uploaded_file))
                           ''sandbox/exec/T-abcdefgh/''
                           [(''commands'',
                             [''#!/bin/sh'', ''set -e'',
                              ''test -d notes.txt&& echo '' @ [CHR 0x27] @ ''Is a directory''
                                @ [CHR 0x27] @ '' 1>&2 && exit 1'',
                              ''curl --fail-with-body --verbose --upload-file notes.txt ''
                                @ ''https://s3/sandbox/read_file/T-abcdefgh/notes.txt'']),
                            (''executionTimeout'', [''3600''])]),
                      WaitCommandExecuted ''c1'' ''i-0abc'' 1 3600,
                      GetCommandInvocation ''c1'' ''i-0abc'']\<rparr>)"
  by (simp add: read_file_dispatch_def s3_key_prefix_for_def demo_defs run_defs
      shlex_join_def shlex_quote_def is_safe_char_def)

lemma read_file_from_the_limit_on_example:
  "fst (read_file small_limits
          (sandbox_with (relay_with CommandExecuted ok_status uploaded_file))
          ''notes.txt'' True quiet_world)
     = Inl (OutputLimitExceededError ''4 B'' None)"
  using read_file_from_the_limit_on
    [where limits = small_limits
       and self = "sandbox_with (relay_with CommandExecuted ok_status uploaded_file)"
       and path = "''notes.txt''" and ?w0.0 = quiet_world and as_text = True
       and result = "\<lparr>success = True, returncode = 0, stdout = [], stderr = []\<rparr>"
       and uploaded = "''hello''"]
  by (simp add: read_file_dispatch_demo) (simp add: uploaded_file_def small_limits_def)

section \<open>Running a command\<close>

text \<open>
  C1. The claim: when the wait for completion runs out of attempts while the relay
  still reports InProgress, \<open>_run_command\<close> sends \<open>cancel_command\<close> for the command
  and the instance, then raises the timeout error, and returns no ExecResult. The
  cancel call stands before the \<open>raise\<close> with no handler: when the relay throttles
  it, the cancellation is sent and no ExecResult is returned, but the exception of
  the cancel call is what the caller gets, not TimeoutError. With a relay that accepts
  the cancellation the same run ends in TimeoutError.
\<close>

theorem run_command_cancel_failure_replaces_timeout:
  "fst (run_command small_limits
          (sandbox_with (throttled (relay_with (WaiterError in_progress_status)
                                      in_progress_status [])))
          ''exec/T-r/'' [] (Some 5) quiet_world)
     = Inl (ClientError (Some ''ThrottlingException''))
   \<and> ssm_calls (snd (run_command small_limits
          (sandbox_with (throttled (relay_with (WaiterError in_progress_status)
                                      in_progress_status [])))
          ''exec/T-r/'' [] (Some 5) quiet_world))
     = [SendCommand \<lparr>InstanceIds = [''i-0abc''], DocumentName = ''AWS-RunShellScript'',
                     Parameters = [], OutputS3BucketName = ''fake-bucket'',
                     OutputS3KeyPrefix = ''exec/T-r/''\<rparr>,
        WaitCommandExecuted ''c1'' ''i-0abc'' 1 5,
        CancelCommand ''c1'' [''i-0abc'']]
   \<and> fst (run_command small_limits
          (sandbox_with (relay_with (WaiterError in_progress_status) in_progress_status []))
          ''exec/T-r/'' [] (Some 5) quiet_world)
     = Inl (TimeoutError ''Command execution timed out.'')"
  by (simp add: demo_defs run_defs)

text \<open>
  In general, on a waiter error whose last response has the status InProgress: the
  calls to the relay are the send, the wait (with the attempt budget
  \<open>timeout or 3600\<close>) and the cancel, in this order; no ExecResult is returned; and
  what is raised is TimeoutError when the cancel call returns, the exception of the
  cancel call when it raises.
\<close>

lemma run_command_in_progress:
  assumes "wait_command_executed (ssm self)
             (send_command (ssm self) (request_for self key_prefix params))
             (instance_id self) 1 (or_3600 timeout) = WaiterError last_response"
    and "Status last_response = Some ''InProgress''"
  shows "fst (run_command limits self key_prefix params timeout w)
           = (case cancel_command (ssm self)
                     (send_command (ssm self) (request_for self key_prefix params))
                     [instance_id self] of
                None \<Rightarrow> Inl (TimeoutError ''Command execution timed out.'')
              | Some e \<Rightarrow> Inl e)"
    and "ssm_calls (snd (run_command limits self key_prefix params timeout w))
           = ssm_calls w
             @ [SendCommand (request_for self key_prefix params),
                WaitCommandExecuted
                  (send_command (ssm self) (request_for self key_prefix params))
                  (instance_id self) 1 (or_3600 timeout),
                CancelCommand
                  (send_command (ssm self) (request_for self key_prefix params))
                  [instance_id self]]"
    and "fst (run_command limits self key_prefix params timeout w) \<noteq> Inr r"
  using assms
  by (simp_all add: run_command_def Let_def call_def warning_def split: option.splits)

text \<open>
  C2, as stated: when the relay gives no response code, the outcome has a non-zero
  return code on the normal-completion path too. There the default is 0: the waiter
  ends normally, the invocation response has no response code, and the outcome is a
  success with return code 0.
\<close>

theorem run_command_default_code_on_completion:
  "ResponseCode (no_code_status ''Success'') = None
   \<and> fst (run_command small_limits
            (sandbox_with (relay_with CommandExecuted (no_code_status ''Success'') []))
            ''exec/T-r/'' [] (Some 5) quiet_world)
       = Inr \<lparr>success = True, returncode = 0, stdout = [], stderr = []\<rparr>"
  by (simp add: demo_defs run_defs)

text \<open>
  C2, amended. When \<open>_run_command\<close> produces an ExecResult and the relay gave no
  response code: on the waiter-error path (the last response of the waiter has none)
  the return code is the non-zero default 1 and the outcome is not a success; on the
  normal-completion path (the invocation response has none) the return code is the
  default 0 and the outcome is a success.
\<close>

theorem run_command_default_codes:
  "(wait_command_executed (ssm self)
      (send_command (ssm self) (request_for self key_prefix params))
      (instance_id self) 1 (or_3600 timeout) = WaiterError last_response
    \<and> ResponseCode last_response = None
    \<and> fst (run_command limits self key_prefix params timeout w) = Inr r
    \<longrightarrow> returncode r = 1 \<and> \<not> success r)
   \<and> (wait_command_executed (ssm self)
        (send_command (ssm self) (request_for self key_prefix params))
        (instance_id self) 1 (or_3600 timeout) = CommandExecuted
      \<and> ResponseCode (get_command_invocation (ssm self)
           (send_command (ssm self) (request_for self key_prefix params))
           (instance_id self)) = None
      \<and> fst (run_command limits self key_prefix params timeout w) = Inr r
      \<longrightarrow> returncode r = 0 \<and> success r)"
  by (auto simp: run_command_def Let_def delete_and_return_def
      split: sum.splits if_splits option.splits)

theorem run_command_default_codes_witness:
  "fst (run_command small_limits
          (sandbox_with (relay_with (WaiterError (no_code_status ''Failed''))
                           (no_code_status ''Failed'') crashed_uploads))
          ''exec/T-r/'' [] (Some 5) quiet_world)
     = Inr \<lparr>success = False, returncode = 1, stdout = unicode ''partial'',
            stderr = unicode ''boom''\<rparr>
   \<and> returncode \<lparr>success = False, returncode = 1, stdout = unicode ''partial'',
                  stderr = unicode ''boom''\<rparr> = 1
   \<and> fst (run_command small_limits
            (sandbox_with (relay_with CommandExecuted (no_code_status ''Success'') []))
            ''exec/T-r/'' [] (Some 5) quiet_world)
       = Inr \<lparr>success = True, returncode = 0, stdout = [], stderr = []\<rparr>
   \<and> returncode \<lparr>success = True, returncode = 0, stdout = [], stderr = []\<rparr> = 0"
proof -
  let ?failed = "sandbox_with (relay_with (WaiterError (no_code_status ''Failed''))
                                 (no_code_status ''Failed'') crashed_uploads)"
  let ?done = "sandbox_with (relay_with CommandExecuted (no_code_status ''Success'') [])"
  let ?r = "\<lparr>success = False, returncode = 1, stdout = unicode ''partial'',
              stderr = unicode ''boom''\<rparr>"
  let ?s = "\<lparr>success = True, returncode = 0, stdout = [], stderr = []\<rparr>"
  have run: "fst (run_command small_limits ?failed ''exec/T-r/'' [] (Some 5) quiet_world) = Inr ?r"
    by (simp add: demo_defs run_defs)
  have ok: "fst (run_command small_limits ?done ''exec/T-r/'' [] (Some 5) quiet_world) = Inr ?s"
    by (simp add: demo_defs run_defs)
  have "returncode ?r = 1 \<and> \<not> success ?r"
    using run
      run_command_default_codes
        [where self = ?failed and key_prefix = "''exec/T-r/''" and params = "[]"
           and timeout = "Some 5" and last_response = "no_code_status ''Failed''"
           and limits = small_limits and w = quiet_world and r = ?r]
    by (simp add: sandbox_with_def relay_with_def no_code_status_def)
  moreover have "returncode ?s = 0 \<and> success ?s"
    using ok
      run_command_default_codes
        [where self = ?done and key_prefix = "''exec/T-r/''" and params = "[]"
           and timeout = "Some 5" and limits = small_limits and w = quiet_world and r = ?s]
    by (simp add: sandbox_with_def relay_with_def no_code_status_def)
  ultimately show ?thesis using run ok by simp
qed

text \<open>
  C5. The claim: once the status is terminal and the output streams are retrieved,
  the stored artifacts of the invocation are deleted whatever the outcome, permission
  denied included. On the permission-denied outcome (a waiter error with status
  Failed, the error stream holding the marker \<open>exit status 126\<close>) PermissionError is
  raised before the deleting statements: both stream objects are still in the bucket
  afterwards. With any other error text the same failure returns an ExecResult and
  leaves the bucket empty.
\<close>

theorem run_command_permission_denied_keeps_artifacts:
  "fst (run_command small_limits
          (sandbox_with (relay_with (WaiterError failed_status) failed_status denied_uploads))
          ''exec/T-r/'' [] (Some 5) quiet_world)
     = Inl (PermissionError
              (unicode (''Permission denied executing command: ''
                        @ ''failed to run commands: exit status 126'')))
   \<and> bucket (snd (run_command small_limits
          (sandbox_with (relay_with (WaiterError failed_status) failed_status denied_uploads))
          ''exec/T-r/'' [] (Some 5) quiet_world))
     = denied_uploads
   \<and> fst (run_command small_limits
          (sandbox_with (relay_with (WaiterError failed_status) failed_status crashed_uploads))
          ''exec/T-r/'' [] (Some 5) quiet_world)
     = Inr \<lparr>success = False, returncode = 126, stdout = unicode ''partial'',
            stderr = unicode ''boom''\<rparr>
   \<and> bucket (snd (run_command small_limits
          (sandbox_with (relay_with (WaiterError failed_status) failed_status crashed_uploads))
          ''exec/T-r/'' [] (Some 5) quiet_world))
     = []"
  by (simp add: demo_defs run_defs)

text \<open>
  Every call that returns an ExecResult has gone through the deleting statements: when
  no \<open>delete_object\<close> call fails, neither stream object is in the bucket afterwards.
\<close>

lemma delete_s3_object_gone:
  "\<not> delete_object_raises w key \<Longrightarrow> key \<notin> fst ` set (bucket (delete_s3_object key w))"
  by (auto simp: delete_s3_object_def)

lemma delete_s3_object_keys:
  "fst ` set (bucket (delete_s3_object key w)) \<subseteq> fst ` set (bucket w)"
  by (auto simp: delete_s3_object_def warning_def)

lemma delete_s3_prefix_keys:
  "fst ` set (bucket (delete_s3_prefix pre w)) \<subseteq> fst ` set (bucket w)"
  by (auto simp: delete_s3_prefix_def warning_def Let_def)

lemma delete_s3_object_faults:
  "delete_object_raises (delete_s3_object key w) = delete_object_raises w"
  by (simp add: delete_s3_object_def warning_def)

lemma delete_and_return_streams_gone:
  assumes "\<not> delete_object_raises w stdout_key" and "\<not> delete_object_raises w stderr_key"
  shows "stdout_key \<notin> fst ` set (bucket (snd (delete_and_return stdout_key stderr_key pre code out err w)))
       \<and> stderr_key \<notin> fst ` set (bucket (snd (delete_and_return stdout_key stderr_key pre code out err w)))"
proof -
  let ?w1 = "delete_s3_object stdout_key w"
  let ?w2 = "delete_s3_object stderr_key ?w1"
  have a: "stdout_key \<notin> fst ` set (bucket ?w1)" using assms(1) by (rule delete_s3_object_gone)
  then have a2: "stdout_key \<notin> fst ` set (bucket ?w2)" using delete_s3_object_keys by blast
  have "\<not> delete_object_raises ?w1 stderr_key" using assms(2) by (simp add: delete_s3_object_faults)
  then have b2: "stderr_key \<notin> fst ` set (bucket ?w2)" by (rule delete_s3_object_gone)
  from a2 b2 show ?thesis
    using delete_s3_prefix_keys [of pre ?w2] by (auto simp: delete_and_return_def)
qed

lemma run_command_returned:
  assumes "fst (run_command limits self key_prefix params timeout w) = Inr r"
  shows "\<exists>code out err w'.
           run_command limits self key_prefix params timeout w
             = delete_and_return
                 (output_key self key_prefix
                    (send_command (ssm self) (request_for self key_prefix params)) ''stdout'')
                 (output_key self key_prefix
                    (send_command (ssm self) (request_for self key_prefix params)) ''stderr'')
                 (key_prefix @ send_command (ssm self) (request_for self key_prefix params) @ ''/'')
                 code out err w'
           \<and> delete_object_raises w' = delete_object_raises w"
  using assms
  by (auto simp: run_command_def Let_def
      split: waiter_result.splits sum.splits if_splits option.splits intro!: exI)
     (simp_all add: call_def)

lemma run_command_returned_streams_gone:
  assumes "fst (run_command limits self key_prefix params timeout w) = Inr r"
    and "\<forall>key. \<not> delete_object_raises w key"
  shows "output_key self key_prefix (send_command (ssm self) (request_for self key_prefix params)) ''stdout''
           \<notin> fst ` set (bucket (snd (run_command limits self key_prefix params timeout w)))
       \<and> output_key self key_prefix (send_command (ssm self) (request_for self key_prefix params)) ''stderr''
           \<notin> fst ` set (bucket (snd (run_command limits self key_prefix params timeout w)))"
proof -
  obtain code out err w' where f: "delete_object_raises w' = delete_object_raises w"
    and r: "run_command limits self key_prefix params timeout w
             = delete_and_return
                 (output_key self key_prefix
                    (send_command (ssm self) (request_for self key_prefix params)) ''stdout'')
                 (output_key self key_prefix
                    (send_command (ssm self) (request_for self key_prefix params)) ''stderr'')
                 (key_prefix @ send_command (ssm self) (request_for self key_prefix params) @ ''/'')
                 code out err w'"
    using run_command_returned [OF assms(1)] by blast
  show ?thesis
    unfolding r using assms(2) f by (intro delete_and_return_streams_gone) simp_all
qed

section \<open>Arguments that \<open>exec\<close> ignores\<close>

lemma erase_warnings_eq_iff:
  "(w1\<lparr>warnings := []\<rparr> = w2\<lparr>warnings := []\<rparr>) = (\<exists>ws. w1 = w2\<lparr>warnings := ws\<rparr>)"
proof
  assume h: "w1\<lparr>warnings := []\<rparr> = w2\<lparr>warnings := []\<rparr>"
  have "w1 = (w1\<lparr>warnings := []\<rparr>)\<lparr>warnings := warnings w1\<rparr>" by simp
  also have "\<dots> = (w2\<lparr>warnings := []\<rparr>)\<lparr>warnings := warnings w1\<rparr>" using h by simp
  also have "\<dots> = w2\<lparr>warnings := warnings w1\<rparr>" by simp
  finally show "\<exists>ws. w1 = w2\<lparr>warnings := ws\<rparr>" by blast
next
  assume "\<exists>ws. w1 = w2\<lparr>warnings := ws\<rparr>"
  then show "w1\<lparr>warnings := []\<rparr> = w2\<lparr>warnings := []\<rparr>" by auto
qed

lemma delete_s3_object_warnings:
  "(delete_s3_object k (w\<lparr>warnings := ws\<rparr>))\<lparr>warnings := []\<rparr>
   = (delete_s3_object k w)\<lparr>warnings := []\<rparr>"
  by (simp add: delete_s3_object_def warning_def)

lemma delete_s3_prefix_warnings:
  "(delete_s3_prefix p (w\<lparr>warnings := ws\<rparr>))\<lparr>warnings := []\<rparr>
   = (delete_s3_prefix p w)\<lparr>warnings := []\<rparr>"
  by (simp add: delete_s3_prefix_def warning_def Let_def)

lemma deletes_warnings:
  assumes "w1\<lparr>warnings := []\<rparr> = w2\<lparr>warnings := []\<rparr>"
  shows "(delete_s3_prefix p (delete_s3_object k2 (delete_s3_object k1 w1)))\<lparr>warnings := []\<rparr>
         = (delete_s3_prefix p (delete_s3_object k2 (delete_s3_object k1 w2)))\<lparr>warnings := []\<rparr>"
proof -
  obtain ws where w1: "w1 = w2\<lparr>warnings := ws\<rparr>"
    using assms unfolding erase_warnings_eq_iff by blast
  obtain a where a: "delete_s3_object k1 (w2\<lparr>warnings := ws\<rparr>)
                     = (delete_s3_object k1 w2)\<lparr>warnings := a\<rparr>"
    using delete_s3_object_warnings [where k = k1 and w = w2 and ws = ws]
    unfolding erase_warnings_eq_iff by blast
  obtain b where b: "delete_s3_object k2 ((delete_s3_object k1 w2)\<lparr>warnings := a\<rparr>)
                     = (delete_s3_object k2 (delete_s3_object k1 w2))\<lparr>warnings := b\<rparr>"
    using delete_s3_object_warnings [where k = k2 and w = "delete_s3_object k1 w2" and ws = a]
    unfolding erase_warnings_eq_iff by blast
  show ?thesis unfolding w1 a b by (rule delete_s3_prefix_warnings)
qed

lemma run_command_warnings:
  "fst (run_command limits self kp params timeout (w\<lparr>warnings := ws\<rparr>))
     = fst (run_command limits self kp params timeout w)
   \<and> (snd (run_command limits self kp params timeout (w\<lparr>warnings := ws\<rparr>)))\<lparr>warnings := []\<rparr>
     = (snd (run_command limits self kp params timeout w))\<lparr>warnings := []\<rparr>"
  by (auto simp: run_command_def Let_def call_def warning_def delete_and_return_def
      split: waiter_result.splits sum.splits option.splits intro!: deletes_warnings)

lemma key_prefix_warnings:
  "s3_key_prefix_for self operation (w\<lparr>warnings := ws\<rparr>)
   = (fst (s3_key_prefix_for self operation w),
      (snd (s3_key_prefix_for self operation w))\<lparr>warnings := ws\<rparr>)"
  by (cases w) (simp add: s3_key_prefix_for_def Let_def split: prod.splits)

lemma exec_unfold:
  "exec limits self cmd input cwd env user timeout timeout_retry w
     = (case s3_key_prefix_for self ''exec''
              (w\<lparr>warnings := warnings w
                 @ (if input \<noteq> None
                    then [''Input parameter not supported by EC2 sandbox''] else [])
                 @ (if user \<noteq> None
                    then [''User parameter not supported by EC2 sandbox''] else [])\<rparr>) of
          (exec_prefix, w3) \<Rightarrow>
            run_command limits self exec_prefix
              [(''commands'',
                map (\<lambda>(k, v). ''export '' @ shlex_quote k @ ''='' @ shlex_quote v) env
                @ (case cwd of None \<Rightarrow> [] | Some d \<Rightarrow> [''cd '' @ shlex_quote d])
                @ [shlex_join cmd]),
               (''executionTimeout'', [str_int (or_3600 timeout)])] timeout w3)"
  by (simp add: exec_def Let_def warning_def)

lemma exec_modulo_warnings:
  "fst (exec limits self cmd input cwd env user timeout timeout_retry w)
     = fst (exec limits self cmd input' cwd env user' timeout timeout_retry w)
   \<and> (snd (exec limits self cmd input cwd env user timeout timeout_retry w))\<lparr>warnings := []\<rparr>
     = (snd (exec limits self cmd input' cwd env user' timeout timeout_retry w))\<lparr>warnings := []\<rparr>"
  unfolding exec_unfold key_prefix_warnings using run_command_warnings by simp

text \<open>
  C10. Two calls of \<open>exec\<close> that differ only in \<open>input\<close> and \<open>user\<close>, from the same
  state and with the same external answers, return the same result (the same
  ExecResult or the same exception), make the same calls to the relay (so the same
  command batch is submitted), and leave the same state but for the warnings logged.
\<close>

theorem exec_ignores_input_and_user:
  "fst (exec limits self cmd input cwd env user timeout timeout_retry w)
     = fst (exec limits self cmd input' cwd env user' timeout timeout_retry w)
   \<and> ssm_calls (snd (exec limits self cmd input cwd env user timeout timeout_retry w))
     = ssm_calls (snd (exec limits self cmd input' cwd env user' timeout timeout_retry w))
   \<and> bucket (snd (exec limits self cmd input cwd env user timeout timeout_retry w))
     = bucket (snd (exec limits self cmd input' cwd env user' timeout timeout_retry w))
   \<and> (snd (exec limits self cmd input cwd env user timeout timeout_retry w))\<lparr>warnings := []\<rparr>
     = (snd (exec limits self cmd input' cwd env user' timeout timeout_retry w))\<lparr>warnings := []\<rparr>"
proof -
  let ?a = "exec limits self cmd input cwd env user timeout timeout_retry w"
  let ?b = "exec limits self cmd input' cwd env user' timeout timeout_retry w"
  have r: "fst ?a = fst ?b" and e: "(snd ?a)\<lparr>warnings := []\<rparr> = (snd ?b)\<lparr>warnings := []\<rparr>"
    using exec_modulo_warnings [of limits self cmd input cwd env user timeout timeout_retry w]
    by simp_all
  have "ssm_calls ((snd ?a)\<lparr>warnings := []\<rparr>) = ssm_calls ((snd ?b)\<lparr>warnings := []\<rparr>)"
    and "bucket ((snd ?a)\<lparr>warnings := []\<rparr>) = bucket ((snd ?b)\<lparr>warnings := []\<rparr>)"
    using e by simp_all
  then have "ssm_calls (snd ?a) = ssm_calls (snd ?b)" and "bucket (snd ?a) = bucket (snd ?b)"
    by simp_all
  with r e show ?thesis by simp
qed

section \<open>Waiting for the agent\<close>

lemma retry_call_ready:
  "a \<le> k \<Longrightarrow> k \<le> n \<Longrightarrow> (\<forall>j. a \<le> j \<and> j < k \<longrightarrow> isl (f j)) \<Longrightarrow> f k = Inr v
   \<Longrightarrow> retry_call n d f a slept = (Inr v, slept @ replicate (k - a) d)"
proof (induction "k - a" arbitrary: a slept)
  case 0
  then have "a = k" by simp
  with 0 show ?case by (simp add: retry_call.simps)
next
  case (Suc m)
  then have lt: "a < k" by simp
  with Suc.prems obtain e where e: "f a = Inl e" by (cases "f a") auto
  have step: "retry_call n d f a slept = retry_call n d f (a + 1) (slept @ [d])"
    using e lt Suc.prems(2) by (subst retry_call.simps) simp
  have "retry_call n d f (a + 1) (slept @ [d])
          = (Inr v, (slept @ [d]) @ replicate (k - (a + 1)) d)"
    using Suc.hyps(2) Suc.prems lt by (intro Suc.hyps(1)) auto
  moreover have "(slept @ [d]) @ replicate (k - (a + 1)) d = slept @ replicate (k - a) d"
    using lt by (simp add: Suc_diff_Suc replicate_append_same flip: replicate_Suc)
  ultimately show ?case using step by simp
qed

lemma retry_call_exhausted:
  "a \<le> n \<Longrightarrow> (\<forall>j. a \<le> j \<and> j \<le> n \<longrightarrow> isl (f j))
   \<Longrightarrow> retry_call n d f a slept = (Inl RetryError, slept @ replicate (n - a) d)"
proof (induction "n - a" arbitrary: a slept)
  case 0
  then have an: "a = n" by simp
  with 0 obtain e where e: "f a = Inl e" by (cases "f a") auto
  show ?case using e an by (subst retry_call.simps) simp
next
  case (Suc m)
  then have lt: "a < n" by simp
  with Suc.prems obtain e where e: "f a = Inl e" by (cases "f a") auto
  have step: "retry_call n d f a slept = retry_call n d f (a + 1) (slept @ [d])"
    using e lt by (subst retry_call.simps) simp
  have "retry_call n d f (a + 1) (slept @ [d])
          = (Inl RetryError, (slept @ [d]) @ replicate (n - (a + 1)) d)"
    using Suc.hyps(2) Suc.prems lt by (intro Suc.hyps(1)) auto
  moreover have "(slept @ [d]) @ replicate (n - (a + 1)) d = slept @ replicate (n - a) d"
    using lt by (simp add: Suc_diff_Suc replicate_append_same flip: replicate_Suc)
  ultimately show ?case using step by simp
qed

lemma wait_for_ssm_attempt_ready:
  "wait_for_ssm_attempt resp = Inr b \<longleftrightarrow>
     (\<exists>first others. resp = Inr (first # others) \<and> PingStatus first = ''Online'' \<and> b)"
  by (auto simp: wait_for_ssm_attempt_def split: sum.splits list.splits)

lemma wait_for_ssm_attempt_raises:
  "isl (wait_for_ssm_attempt resp) \<longleftrightarrow> wait_for_ssm_attempt resp \<noteq> Inr True"
  by (auto simp: wait_for_ssm_attempt_def split: sum.splits list.splits)

lemma one_record_per_instance:
  "distinct (map InstanceId records)
   \<Longrightarrow> length (filter (\<lambda>r. InstanceId r = target) records) \<le> 1"
proof (induction records)
  case Nil
  show ?case by simp
next
  case (Cons x xs)
  show ?case
  proof (cases "InstanceId x = target")
    case True
    from Cons.prems have "InstanceId x \<notin> InstanceId ` set xs" by simp
    with True have "\<forall>r \<in> set xs. InstanceId r \<noteq> target" by blast
    then have "filter (\<lambda>r. InstanceId r = target) xs = []"
      by (simp add: filter_empty_conv)
    with True show ?thesis by simp
  next
    case False
    with Cons show ?thesis by simp
  qed
qed

lemma poll_ready:
  assumes "\<forall>n records. inventory n = Inr records \<longrightarrow> distinct (map InstanceId records)"
  shows "wait_for_ssm_attempt (poll inventory target n) = Inr True
         \<longleftrightarrow> exactly_one_record_online inventory target n"
proof (cases "inventory n")
  case (Inl e)
  then show ?thesis
    by (simp add: poll_def wait_for_ssm_attempt_def exactly_one_record_online_def)
next
  case (Inr records)
  with assms have "length (filter (\<lambda>r. InstanceId r = target) records) \<le> 1"
    by (intro one_record_per_instance) blast
  then show ?thesis
    using Inr
    by (cases "filter (\<lambda>r. InstanceId r = target) records")
       (auto simp: poll_def describe_instance_information_def wait_for_ssm_attempt_def
          exactly_one_record_online_def split: list.splits)
qed

text \<open>
  C6. The relay's inventory has one record per registered instance, so the query
  filtered by the instance id answers with no record or one. Then a poll signals
  readiness exactly when exactly one record of the inventory matches the instance id
  and its status is Online; \<open>_wait_for_ssm\<close> signals readiness only when one of its
  first 20 polls does; if the \<open>k\<close>-th poll is the first to do so it returns after
  \<open>k - 1\<close> sleeps of 30 each (the delay never grows); and if none of the 20 polls does,
  it raises RetryError, which is not the exception of a single poll, after 19 sleeps
  of 30 each.
\<close>

theorem wait_for_ssm_policy:
  assumes "\<forall>n records. inventory n = Inr records \<longrightarrow> distinct (map InstanceId records)"
  shows "(\<forall>n. wait_for_ssm_attempt (poll inventory target n) = Inr True
              \<longleftrightarrow> exactly_one_record_online inventory target n)
       \<and> (fst (wait_for_ssm (poll inventory target)) = Inr True
            \<longleftrightarrow> (\<exists>k. 1 \<le> k \<and> k \<le> 20 \<and> exactly_one_record_online inventory target k))
       \<and> (\<forall>k. 1 \<le> k \<and> k \<le> 20 \<and> exactly_one_record_online inventory target k
              \<and> (\<forall>j. 1 \<le> j \<and> j < k \<longrightarrow> \<not> exactly_one_record_online inventory target j)
            \<longrightarrow> wait_for_ssm (poll inventory target) = (Inr True, replicate (k - 1) 30))
       \<and> ((\<forall>j. 1 \<le> j \<and> j \<le> 20 \<longrightarrow> \<not> exactly_one_record_online inventory target j)
            \<longrightarrow> wait_for_ssm (poll inventory target) = (Inl RetryError, replicate 19 30))
       \<and> RetryError \<noteq> Exception ''Not ready''"
proof -
  let ?ready = "exactly_one_record_online inventory target"
  let ?f = "\<lambda>n. wait_for_ssm_attempt (poll inventory target n)"
  have ready: "?f n = Inr True \<longleftrightarrow> ?ready n" for n
    using poll_ready [OF assms] .
  have first: "wait_for_ssm (poll inventory target) = (Inr True, replicate (k - 1) 30)"
    if "1 \<le> k" "k \<le> 20" "?ready k" "\<forall>j. 1 \<le> j \<and> j < k \<longrightarrow> \<not> ?ready j" for k
  proof -
    have "retry_call 20 30 ?f 1 [] = (Inr True, [] @ replicate (k - 1) 30)"
      using that by (intro retry_call_ready) (auto simp: wait_for_ssm_attempt_raises ready)
    then show ?thesis by (simp add: wait_for_ssm_def)
  qed
  have none: "wait_for_ssm (poll inventory target) = (Inl RetryError, replicate 19 30)"
    if "\<forall>j. 1 \<le> j \<and> j \<le> 20 \<longrightarrow> \<not> ?ready j"
  proof -
    have "retry_call 20 30 ?f 1 [] = (Inl RetryError, [] @ replicate (20 - 1) 30)"
      using that by (intro retry_call_exhausted) (auto simp: wait_for_ssm_attempt_raises ready)
    then show ?thesis by (simp add: wait_for_ssm_def)
  qed
  have only: "fst (wait_for_ssm (poll inventory target)) = Inr True
                \<longleftrightarrow> (\<exists>k. 1 \<le> k \<and> k \<le> 20 \<and> ?ready k)"
  proof
    assume r: "fst (wait_for_ssm (poll inventory target)) = Inr True"
    show "\<exists>k. 1 \<le> k \<and> k \<le> 20 \<and> ?ready k"
    proof (rule ccontr)
      assume "\<not> (\<exists>k. 1 \<le> k \<and> k \<le> 20 \<and> ?ready k)"
      then have "\<forall>j. 1 \<le> j \<and> j \<le> 20 \<longrightarrow> \<not> ?ready j" by blast
      from none [OF this] r show False by simp
    qed
  next
    assume "\<exists>k. 1 \<le> k \<and> k \<le> 20 \<and> ?ready k"
    then obtain k where k: "1 \<le> k \<and> k \<le> 20 \<and> ?ready k" by blast
    define m where "m = (LEAST i. 1 \<le> i \<and> i \<le> 20 \<and> ?ready i)"
    have pm: "1 \<le> m \<and> m \<le> 20 \<and> ?ready m"
      unfolding m_def using k by (rule LeastI)
    have "\<not> (1 \<le> j \<and> j \<le> 20 \<and> ?ready j)" if "j < m" for j
      using that unfolding m_def by (rule not_less_Least)
    with pm have "\<forall>j. 1 \<le> j \<and> j < m \<longrightarrow> \<not> ?ready j" by auto
    with pm have "wait_for_ssm (poll inventory target) = (Inr True, replicate (m - 1) 30)"
      by (intro first) auto
    then show "fst (wait_for_ssm (poll inventory target)) = Inr True" by simp
  qed
  show ?thesis
    using ready only first none by auto
qed

theorem wait_for_ssm_policy_witness:
  "wait_for_ssm (poll booting_inventory ''i-0abc'') = (Inr True, [30, 30])
   \<and> exactly_one_record_online booting_inventory ''i-0abc'' 3
   \<and> \<not> exactly_one_record_online booting_inventory ''i-0abc'' 2
   \<and> \<not> exactly_one_record_online booting_inventory ''i-0abc'' 1
   \<and> wait_for_ssm (poll booting_inventory ''i-0def'') = (Inl RetryError, replicate 19 30)"
proof -
  have contract:
    "\<forall>n records. booting_inventory n = Inr records \<longrightarrow> distinct (map InstanceId records)"
    by (auto simp: booting_inventory_def split: if_splits)
  have r3: "exactly_one_record_online booting_inventory ''i-0abc'' 3"
    by (simp add: exactly_one_record_online_def booting_inventory_def)
  have before: "\<forall>j. 1 \<le> j \<and> j < 3 \<longrightarrow> \<not> exactly_one_record_online booting_inventory ''i-0abc'' j"
    by (simp add: exactly_one_record_online_def booting_inventory_def)
  have never: "\<forall>j. 1 \<le> j \<and> j \<le> 20 \<longrightarrow> \<not> exactly_one_record_online booting_inventory ''i-0def'' j"
    by (simp add: exactly_one_record_online_def booting_inventory_def)
  have a: "wait_for_ssm (poll booting_inventory ''i-0abc'') = (Inr True, replicate (3 - 1) 30)"
    using wait_for_ssm_policy
            [OF contract, of "''i-0abc''", THEN conjunct2, THEN conjunct2, THEN conjunct1,
             rule_format, of 3]
          r3 before
    by simp
  have b: "wait_for_ssm (poll booting_inventory ''i-0def'') = (Inl RetryError, replicate 19 30)"
    using wait_for_ssm_policy
            [OF contract, of "''i-0def''", THEN conjunct2, THEN conjunct2, THEN conjunct2,
             THEN conjunct1]
          never
    by simp
  have c: "\<not> exactly_one_record_online booting_inventory ''i-0abc'' 2"
    and d: "\<not> exactly_one_record_online booting_inventory ''i-0abc'' 1"
    by (simp_all add: exactly_one_record_online_def booting_inventory_def)
  from a b c d r3 show ?thesis
    by (simp add: numeral_2_eq_2)
qed

end
